theory Spec2Isabelle
  imports Main
begin

section \<open>The minute-bucketing sliding-window aggregator of analytical_server.py\<close>

text \<open>
  The class \<open>EmojiAnalytics\<close> keeps, per emoji type and overall, a deque of
  \<open>(timestamp, count)\<close> pairs for closed minutes and a bucket of counts for the open
  minute. This theory embeds its methods as functions on a record of its fields and
  settles the properties stated for it.
\<close>

subsection \<open>Timestamps\<close>

text \<open>
  A naive Python \<open>datetime\<close> is a number of microseconds counted from
  \<open>datetime.min\<close> (0001-01-01T00:00:00); the largest one, \<open>datetime.max\<close>
  (9999-12-31T23:59:59.999999), is \<open>DT_MAX\<close>. Days have 86400 seconds, so
  \<open>replace(second=0, microsecond=0)\<close> rounds down to a multiple of a minute.
\<close>

type_synonym datetime = int

type_synonym series = "(datetime \<times> int) list"

datatype error = OverflowError

definition DT_MAX :: datetime where
  "DT_MAX = 315537897599999999"

definition MINUTE :: int where
  "MINUTE = 60000000"

definition minute_of :: "datetime \<Rightarrow> datetime" where
  "minute_of t = t - t mod MINUTE"

text \<open>
  \<open>timestamp - timedelta(minutes=window_size)\<close>. Python raises OverflowError when the
  difference leaves the range of \<open>datetime\<close>; building a \<open>timedelta\<close> of more than
  999999999 days raises the same exception, and such a delta always leaves that range.
\<close>

definition sub_minutes :: "datetime \<Rightarrow> int \<Rightarrow> error + datetime" where
  "sub_minutes t w =
     (let r = t - w * MINUTE
      in if 0 \<le> r \<and> r \<le> DT_MAX then Inr r else Inl OverflowError)"

subsection \<open>Dictionaries in insertion order\<close>

text \<open>
  A Python dict iterates in insertion order, and the loops of the class iterate over
  dicts, so a dict is an association list: assigning to a present key keeps its place,
  assigning to a new key appends it.
\<close>

fun dict_set :: "('k \<times> 'v) list \<Rightarrow> 'k \<Rightarrow> 'v \<Rightarrow> ('k \<times> 'v) list" where
  "dict_set [] k v = [(k, v)]"
| "dict_set ((k', v') # d) k v = (if k' = k then (k, v) # d else (k', v') # dict_set d k v)"

definition dict_get :: "('k \<times> 'v) list \<Rightarrow> 'k \<Rightarrow> 'v \<Rightarrow> 'v" where
  "dict_get d k dflt = (case map_of d k of None \<Rightarrow> dflt | Some v \<Rightarrow> v)"

subsection \<open>The state of an EmojiAnalytics object\<close>

record EmojiAnalytics =
  window_size :: int
  emoji_counts :: "(string \<times> series) list"
  total_counts :: series
  current_minute_counts :: "(string \<times> int) list"
  current_minute_total :: int
  last_minute :: datetime

text \<open>\<open>__init__\<close>; \<open>now\<close> is the reading of \<open>datetime.now()\<close>.\<close>

definition init :: "int \<Rightarrow> datetime \<Rightarrow> EmojiAnalytics" where
  "init window_size_minutes now =
     \<lparr>window_size = window_size_minutes,
      emoji_counts = [],
      total_counts = [],
      current_minute_counts = [],
      current_minute_total = 0,
      last_minute = minute_of now\<rparr>"

subsection \<open>Closing the open minute\<close>

text \<open>
  The \<open>while\<close> loop that pops from the left of a deque as long as its first
  timestamp is older than the cutoff.
\<close>

fun evict :: "datetime \<Rightarrow> series \<Rightarrow> series" where
  "evict cutoff_time [] = []"
| "evict cutoff_time ((t, c) # xs) =
     (if t < cutoff_time then evict cutoff_time xs else (t, c) # xs)"

text \<open>
  The \<open>for\<close> loop over the items of \<open>current_minute_counts\<close>. Indexing the
  defaultdict \<open>emoji_counts\<close> with a new emoji type inserts an empty deque first. The
  model stops at the first exception and returns it.
\<close>

fun save_emoji_counts ::
  "datetime \<Rightarrow> int \<Rightarrow> (string \<times> int) list \<Rightarrow> (string \<times> series) list
     \<Rightarrow> error + (string \<times> series) list" where
  "save_emoji_counts timestamp w [] ec = Inr ec"
| "save_emoji_counts timestamp w ((emoji_type, count) # items) ec =
     (let ec1 = dict_set ec emoji_type (dict_get ec emoji_type [] @ [(timestamp, count)])
      in case sub_minutes timestamp w of
           Inl err \<Rightarrow> Inl err
         | Inr cutoff_time \<Rightarrow>
             save_emoji_counts timestamp w items
               (dict_set ec1 emoji_type (evict cutoff_time (dict_get ec1 emoji_type []))))"

definition save_minute_data :: "EmojiAnalytics \<Rightarrow> error + EmojiAnalytics" where
  "save_minute_data s =
     (let timestamp = last_minute s
      in case save_emoji_counts timestamp (window_size s) (current_minute_counts s)
                (emoji_counts s) of
           Inl err \<Rightarrow> Inl err
         | Inr ec \<Rightarrow>
             if current_minute_total s > 0
             then (let tc = total_counts s @ [(timestamp, current_minute_total s)]
                   in case sub_minutes timestamp (window_size s) of
                        Inl err \<Rightarrow> Inl err
                      | Inr cutoff_time \<Rightarrow>
                          Inr (s\<lparr>emoji_counts := ec, total_counts := evict cutoff_time tc\<rparr>))
             else Inr (s\<lparr>emoji_counts := ec\<rparr>))"

definition reset_current_minute :: "EmojiAnalytics \<Rightarrow> EmojiAnalytics" where
  "reset_current_minute s = s\<lparr>current_minute_counts := [], current_minute_total := 0\<rparr>"

subsection \<open>Recording an event\<close>

text \<open>\<open>timestamp_str.replace('Z', '+00:00')\<close>.\<close>

fun replace_Z :: "string \<Rightarrow> string" where
  "replace_Z [] = []"
| "replace_Z (c # cs) = (if c = CHR ''Z'' then ''+00:00'' @ replace_Z cs else c # replace_Z cs)"

text \<open>
  The \<open>try\<close> block. \<open>datetime.fromisoformat\<close> belongs to Python's library and is a
  parameter: it gives the date and time fields of the parsed value, which is what
  \<open>replace(tzinfo=None)\<close> keeps, or \<open>None\<close> where it raises. The bare \<open>except\<close>
  then takes \<open>datetime.now()\<close>, whose reading is the parameter \<open>now\<close>. Strings are
  sequences of bytes here, an emoji being its UTF-8 encoding; no byte of a multi-byte
  character is the letter Z, so the replacement is the one Python makes on characters.
\<close>

definition parse_timestamp :: "(string \<Rightarrow> datetime option) \<Rightarrow> datetime \<Rightarrow> string \<Rightarrow> datetime" where
  "parse_timestamp fromisoformat now timestamp_str =
     (case fromisoformat (replace_Z timestamp_str) of
        Some timestamp \<Rightarrow> timestamp
      | None \<Rightarrow> now)"

definition add_emoji ::
  "(string \<Rightarrow> datetime option) \<Rightarrow> datetime \<Rightarrow> EmojiAnalytics \<Rightarrow> string \<Rightarrow> string
     \<Rightarrow> error + EmojiAnalytics" where
  "add_emoji fromisoformat now s emoji_type timestamp_str =
     (let timestamp = parse_timestamp fromisoformat now timestamp_str;
          current_minute = minute_of timestamp
      in case (if current_minute > last_minute s
               then (case save_minute_data s of
                       Inl err \<Rightarrow> Inl err
                     | Inr s1 \<Rightarrow> Inr ((reset_current_minute s1)\<lparr>last_minute := current_minute\<rparr>))
               else Inr s) of
           Inl err \<Rightarrow> Inl err
         | Inr s2 \<Rightarrow>
             Inr (s2\<lparr>current_minute_counts :=
                        dict_set (current_minute_counts s2) emoji_type
                          (dict_get (current_minute_counts s2) emoji_type 0 + 1),
                      current_minute_total := current_minute_total s2 + 1\<rparr>))"

subsection \<open>Queries\<close>

text \<open>
  A query returns its result and the state it leaves. The data points of a series are
  kept as \<open>(timestamp, count)\<close> pairs; the rendering of the timestamp by
  \<open>isoformat()\<close> is not modelled.
\<close>

definition get_emoji_data ::
  "EmojiAnalytics \<Rightarrow> error + ((string \<times> series) list \<times> EmojiAnalytics)" where
  "get_emoji_data s =
     (case save_minute_data s of
        Inl err \<Rightarrow> Inl err
      | Inr s' \<Rightarrow> Inr (emoji_counts s', s'))"

definition get_total_data :: "EmojiAnalytics \<Rightarrow> error + (series \<times> EmojiAnalytics)" where
  "get_total_data s =
     (case save_minute_data s of
        Inl err \<Rightarrow> Inl err
      | Inr s' \<Rightarrow> Inr (total_counts s', s'))"

record stats =
  total_emojis :: int
  emoji_breakdown :: "(string \<times> int) list"
  window_minutes :: int

definition sum_counts :: "series \<Rightarrow> int" where
  "sum_counts data_points = sum_list (map snd data_points)"

text \<open>The loop of \<open>get_current_stats\<close> that fills the local dict \<open>emoji_totals\<close>.\<close>

fun emoji_totals_loop ::
  "(string \<times> series) list \<Rightarrow> (string \<times> int) list \<Rightarrow> (string \<times> int) list
     \<Rightarrow> (string \<times> int) list" where
  "emoji_totals_loop [] cmc emoji_totals = emoji_totals"
| "emoji_totals_loop ((emoji_type, data_points) # items) cmc emoji_totals =
     (let t1 = dict_set emoji_totals emoji_type (sum_counts data_points);
          t2 = dict_set t1 emoji_type (dict_get t1 emoji_type 0 + dict_get cmc emoji_type 0)
      in emoji_totals_loop items cmc t2)"

definition get_current_stats :: "EmojiAnalytics \<Rightarrow> stats \<times> EmojiAnalytics" where
  "get_current_stats s =
     (\<lparr>total_emojis = sum_counts (total_counts s) + current_minute_total s,
       emoji_breakdown = emoji_totals_loop (emoji_counts s) (current_minute_counts s) [],
       window_minutes = window_size s\<rparr>,
      s)"

subsection \<open>Sequences of calls\<close>

text \<open>
  A call of one of the four public methods; \<open>AddEmoji emoji_type timestamp_str now\<close>
  carries the clock reading its \<open>except\<close> branch would take. \<open>run\<close> performs the
  calls in order on one object, collects what they return and stops at the first
  exception.
\<close>

datatype call = AddEmoji string string datetime | GetEmojiData | GetTotalData | GetCurrentStats

datatype result =
  Done | EmojiData "(string \<times> series) list" | TotalData series | CurrentStats stats

fun perform ::
  "(string \<Rightarrow> datetime option) \<Rightarrow> EmojiAnalytics \<Rightarrow> call \<Rightarrow> error + (result \<times> EmojiAnalytics)" where
  "perform fromisoformat s (AddEmoji emoji_type timestamp_str now) =
     (case add_emoji fromisoformat now s emoji_type timestamp_str of
        Inl err \<Rightarrow> Inl err
      | Inr s' \<Rightarrow> Inr (Done, s'))"
| "perform fromisoformat s GetEmojiData =
     (case get_emoji_data s of Inl err \<Rightarrow> Inl err | Inr (r, s') \<Rightarrow> Inr (EmojiData r, s'))"
| "perform fromisoformat s GetTotalData =
     (case get_total_data s of Inl err \<Rightarrow> Inl err | Inr (r, s') \<Rightarrow> Inr (TotalData r, s'))"
| "perform fromisoformat s GetCurrentStats =
     (case get_current_stats s of (r, s') \<Rightarrow> Inr (CurrentStats r, s'))"

fun run ::
  "(string \<Rightarrow> datetime option) \<Rightarrow> EmojiAnalytics \<Rightarrow> call list
     \<Rightarrow> error + (result list \<times> EmojiAnalytics)" where
  "run fromisoformat s [] = Inr ([], s)"
| "run fromisoformat s (c # cs) =
     (case perform fromisoformat s c of
        Inl err \<Rightarrow> Inl err
      | Inr (r, s') \<Rightarrow>
          (case run fromisoformat s' cs of
             Inl err \<Rightarrow> Inl err
           | Inr (rs, s'') \<Rightarrow> Inr (r # rs, s'')))"


subsection \<open>Notions used by the properties\<close>

text \<open>The minute keys of a series are strictly ascending (hence without duplicates).\<close>

definition strictly_ascending :: "series \<Rightarrow> bool" where
  "strictly_ascending xs = sorted_wrt (<) (map fst xs)"

text \<open>
  Every entry of a series is at most \<open>w\<close> minutes older than the latest entry of the
  same series.
\<close>

definition within_window :: "int \<Rightarrow> series \<Rightarrow> bool" where
  "within_window w xs = list_all (\<lambda>(t, c). fst (last xs) - t \<le> w * MINUTE) xs"

text \<open>
  Every entry of a series is at most \<open>w\<close> minutes older than the minute key \<open>latest\<close>.
\<close>

definition within_window_of :: "int \<Rightarrow> datetime \<Rightarrow> series \<Rightarrow> bool" where
  "within_window_of w latest xs = list_all (\<lambda>(t, c). latest - t \<le> w * MINUTE) xs"

text \<open>
  The window bound measured from one minute key for the whole store: the key of the
  latest closed minute, which is the last entry of the total series.
\<close>

definition store_within_latest :: "EmojiAnalytics \<Rightarrow> bool" where
  "store_within_latest s =
     (case total_counts s of
        [] \<Rightarrow> True
      | x # xs \<Rightarrow>
          within_window_of (window_size s) (fst (last (x # xs))) (total_counts s) \<and>
          list_all (\<lambda>(e, ys). within_window_of (window_size s) (fst (last (x # xs))) ys)
            (emoji_counts s))"

text \<open>
  The window bound of a whole store: each series, per emoji type and total, is within
  the window of its own latest entry.
\<close>

definition store_within_window :: "EmojiAnalytics \<Rightarrow> bool" where
  "store_within_window s =
     (within_window (window_size s) (total_counts s) \<and>
      list_all (\<lambda>(e, xs). within_window (window_size s) xs) (emoji_counts s))"


definition open_count :: "EmojiAnalytics \<Rightarrow> string \<Rightarrow> int" where
  "open_count s e = dict_get (current_minute_counts s) e 0"





text \<open>
  The representation invariant of the series: each is sorted by minute key (duplicates
  allowed) and holds no key later than the open minute.
\<close>

definition series_ok :: "datetime \<Rightarrow> series \<Rightarrow> bool" where
  "series_ok lm xs = (sorted (map fst xs) \<and> list_all (\<lambda>(t, c). t \<le> lm) xs)"

definition store_ok :: "EmojiAnalytics \<Rightarrow> bool" where
  "store_ok s =
     (series_ok (last_minute s) (total_counts s) \<and>
      list_all (\<lambda>(e, xs). series_ok (last_minute s) xs) (emoji_counts s) \<and>
      distinct (map fst (current_minute_counts s)))"

text \<open>
  The subtraction of the window from the open minute stays within the range of
  \<open>datetime\<close>, as it does for the default window of 3 minutes and any clock of our era.
\<close>

definition window_fits :: "EmojiAnalytics \<Rightarrow> bool" where
  "window_fits s =
     (0 \<le> window_size s \<and> window_size s * MINUTE \<le> last_minute s \<and> last_minute s \<le> DT_MAX)"

subsection \<open>A parser for the scenarios\<close>

text \<open>
  The values of \<open>datetime.fromisoformat\<close> on the strings used in the scenarios below,
  in microseconds from 0001-01-01T00:00:00 (2024-01-01 is day 738885 after it); every
  other string is taken as unparseable.
\<close>

definition scenario_clock :: "string \<Rightarrow> datetime option" where
  "scenario_clock = map_of
     [(''2024-01-01T10:00:00+00:00'', 63839700000000000),
      (''2024-01-01T10:01:00+00:00'', 63839700060000000),
      (''2024-01-01T10:02:00+00:00'', 63839700120000000),
      (''2024-01-01T10:03:00+00:00'', 63839700180000000),
      (''2024-01-01T10:04:00+00:00'', 63839700240000000),
      (''2024-01-01T10:05:00+00:00'', 63839700300000000),
      (''2024-01-01T10:10:00+00:00'', 63839700600000000),
      (''2024-01-01T10:20:00+00:00'', 63839701200000000),
      (''2024-01-01T12:00:30+00:00'', 63839707230000000)]"

text \<open>
  The state of an object with the default window of 3 minutes after a single event
  \<open>''A''\<close> in the minute \<open>m\<close>: nothing closed yet, one count in the open bucket.
\<close>

definition open_at :: "datetime \<Rightarrow> EmojiAnalytics" where
  "open_at m =
     \<lparr>window_size = 3,
      emoji_counts = [],
      total_counts = [],
      current_minute_counts = [(''A'', 1)],
      current_minute_total = 1,
      last_minute = m\<rparr>"

text \<open>The same object after one query has saved the open minute.\<close>

definition saved_at :: "datetime \<Rightarrow> EmojiAnalytics" where
  "saved_at m =
     \<lparr>window_size = 3,
      emoji_counts = [(''A'', [(m, 1)])],
      total_counts = [(m, 1)],
      current_minute_counts = [(''A'', 1)],
      current_minute_total = 1,
      last_minute = m\<rparr>"

section \<open>Auxiliary facts\<close>

subsection \<open>Dictionaries\<close>

lemma dict_get_dict_set:
  "dict_get (dict_set d k v) k' dflt = (if k' = k then v else dict_get d k' dflt)"
  by (induction d) (auto simp: dict_get_def)

lemma map_of_dict_set: "map_of (dict_set d k v) = (map_of d)(k \<mapsto> v)"
  by (induction d) auto

lemma dict_set_twice: "dict_set (dict_set d k v) k v' = dict_set d k v'"
  by (induction d) auto

lemma set_dict_set: "set (dict_set d k v) \<subseteq> insert (k, v) (set d)"
  by (induction d) (auto split: if_splits)

lemma keys_dict_set: "fst ` set (dict_set d k v) = insert k (fst ` set d)"
  by (induction d k v rule: dict_set.induct) (simp_all add: insert_commute)

lemma distinct_dict_set:
  "distinct (map fst d) \<Longrightarrow> distinct (map fst (dict_set d k v))"
  by (induction d k v rule: dict_set.induct) (auto simp: keys_dict_set)

lemma dict_get_cases: "dict_get d k dflt = dflt \<or> (k, dict_get d k dflt) \<in> set d"
  by (auto simp: dict_get_def split: option.splits dest: map_of_SomeD)

lemma list_all_dict_set:
  "list_all (\<lambda>(k, x). P x) d \<Longrightarrow> P v \<Longrightarrow> list_all (\<lambda>(k, x). P x) (dict_set d k v)"
  by (induction d) auto

lemma list_all_dict_get:
  "list_all (\<lambda>(k, x). P x) d \<Longrightarrow> P dflt \<Longrightarrow> P (dict_get d k dflt)"
  using dict_get_cases [of d k dflt] by (auto simp: list_all_iff)

subsection \<open>Eviction\<close>

lemma set_evict: "set (evict c xs) \<subseteq> set xs"
  by (induction c xs rule: evict.induct) auto

lemma sorted_evict: "sorted (map fst xs) \<Longrightarrow> sorted (map fst (evict c xs))"
  by (induction c xs rule: evict.induct) auto

lemma evict_lower_bound:
  "sorted (map fst xs) \<Longrightarrow> (t, n) \<in> set (evict c xs) \<Longrightarrow> c \<le> t"
  by (induction c xs rule: evict.induct) (auto split: if_splits)

lemma last_evict: "evict c xs \<noteq> [] \<Longrightarrow> last (evict c xs) = last xs"
  by (induction c xs rule: evict.induct) (auto split: if_splits)


lemma count_list_evict:
  "\<not> fst x < c \<Longrightarrow> count_list (evict c xs) x = count_list xs x"
  by (induction c xs rule: evict.induct) auto

lemma evict_append_neq:
  assumes "\<not> fst x < c"
  shows "evict c (xs @ [x]) \<noteq> xs"
proof
  assume "evict c (xs @ [x]) = xs"
  then have "count_list (evict c (xs @ [x])) x = count_list xs x" by simp
  with assms show False by (simp add: count_list_evict)
qed

lemma evict_append_last:
  assumes "\<not> fst x < c"
  shows "evict c (xs @ [x]) \<noteq> [] \<and> last (evict c (xs @ [x])) = x"
proof -
  have "count_list (evict c (xs @ [x])) x = count_list xs x + 1"
    using assms by (simp add: count_list_evict)
  then have "evict c (xs @ [x]) \<noteq> []" by auto
  then show ?thesis by (simp add: last_evict)
qed

subsection \<open>The loop over the open bucket\<close>

text \<open>
  When the cutoff can be computed, the loop is a fold that replaces the series of each
  emoji type of the bucket by its extension, evicted; when it cannot, the loop raises at
  its first item.
\<close>

lemma sub_minutes_Inr: "sub_minutes t w = Inr c \<Longrightarrow> c = t - w * MINUTE"
  by (auto simp: sub_minutes_def Let_def split: if_splits)

lemma MINUTE_nonneg: "0 \<le> w \<Longrightarrow> 0 \<le> w * MINUTE"
  by (simp add: MINUTE_def)

lemma save_emoji_counts_fold:
  "sub_minutes ts w = Inr c \<Longrightarrow>
   save_emoji_counts ts w items ec =
     Inr (fold (\<lambda>(e, n) ec. dict_set ec e (evict c (dict_get ec e [] @ [(ts, n)]))) items ec)"
  by (induction items arbitrary: ec) (auto simp: dict_get_dict_set dict_set_twice)

lemma save_emoji_counts_raises:
  "sub_minutes ts w = Inl err \<Longrightarrow>
   save_emoji_counts ts w items ec = (if items = [] then Inr ec else Inl err)"
  by (cases items) auto

lemma fold_close_all:
  assumes "list_all (\<lambda>(e, xs). P xs) ec" and "P []"
    and "\<And>xs n. P xs \<Longrightarrow> P (evict c (xs @ [(ts, n)]))"
  shows "list_all (\<lambda>(e, xs). P xs)
           (fold (\<lambda>(e, n) ec. dict_set ec e (evict c (dict_get ec e [] @ [(ts, n)]))) items ec)"
  using assms(1)
proof (induction items arbitrary: ec)
  case Nil
  then show ?case by simp
next
  case (Cons item items)
  obtain e n where item: "item = (e, n)" by (cases item)
  from Cons.prems assms(2) have "P (dict_get ec e [])" by (rule list_all_dict_get)
  then have "P (evict c (dict_get ec e [] @ [(ts, n)]))" by (rule assms(3))
  with Cons.prems have "list_all (\<lambda>(e, xs). P xs)
      (dict_set ec e (evict c (dict_get ec e [] @ [(ts, n)])))"
    by (rule list_all_dict_set)
  then show ?case using Cons.IH item by simp
qed

lemma fold_close_get:
  "distinct (map fst items) \<Longrightarrow>
   dict_get (fold (\<lambda>(e, n) ec. dict_set ec e (evict c (dict_get ec e [] @ [(ts, n)]))) items ec) k [] =
     (case map_of items k of
        None \<Rightarrow> dict_get ec k []
      | Some n \<Rightarrow> evict c (dict_get ec k [] @ [(ts, n)]))"
proof (induction items arbitrary: ec)
  case Nil
  then show ?case by simp
next
  case (Cons item items)
  obtain e n where item: "item = (e, n)" by (cases item)
  from Cons.prems item have "map_of items e = None"
    by (simp add: map_of_eq_None_iff)
  with Cons item show ?case
    by (auto simp: dict_get_dict_set split: option.splits)
qed

subsection \<open>Closing a minute keeps the series sorted and within their window\<close>

lemma series_ok_Nil: "series_ok lm []"
  by (simp add: series_ok_def)

lemma series_ok_mono: "series_ok lm xs \<Longrightarrow> lm \<le> lm' \<Longrightarrow> series_ok lm' xs"
  by (fastforce simp: series_ok_def list_all_iff)

lemma sorted_keys_append:
  "series_ok lm xs \<Longrightarrow> sorted (map fst (xs @ [(lm, n)]))"
  by (auto simp: series_ok_def list_all_iff sorted_append)

lemma series_ok_close:
  assumes "series_ok lm xs"
  shows "series_ok lm (evict c (xs @ [(lm, n)]))"
proof -
  have "sorted (map fst (evict c (xs @ [(lm, n)])))"
    using assms by (intro sorted_evict sorted_keys_append)
  moreover have "list_all (\<lambda>(t, c). t \<le> lm) (xs @ [(lm, n)])"
    using assms by (simp add: series_ok_def)
  then have "list_all (\<lambda>(t, c). t \<le> lm) (evict c (xs @ [(lm, n)]))"
    using set_evict [of c "xs @ [(lm, n)]"] unfolding list_all_iff by blast
  ultimately show ?thesis by (simp add: series_ok_def)
qed

lemma within_window_Nil: "within_window w []"
  by (simp add: within_window_def)

lemma within_window_close:
  assumes "series_ok lm xs"
  shows "within_window w (evict (lm - w * MINUTE) (xs @ [(lm, n)]))"
proof (cases "evict (lm - w * MINUTE) (xs @ [(lm, n)]) = []")
  case True
  then show ?thesis by (simp add: within_window_def)
next
  case False
  then have "last (evict (lm - w * MINUTE) (xs @ [(lm, n)])) = (lm, n)"
    by (simp add: last_evict)
  moreover have "lm - w * MINUTE \<le> t"
    if "(t, k) \<in> set (evict (lm - w * MINUTE) (xs @ [(lm, n)]))" for t k
    using sorted_keys_append [OF assms] that by (rule evict_lower_bound)
  ultimately show ?thesis
    by (fastforce simp: within_window_def list_all_iff)
qed

lemma save_minute_data_Inr:
  assumes "save_minute_data s = Inr s'"
  shows "(current_minute_counts s = [] \<and> \<not> 0 < current_minute_total s \<and> s' = s) \<or>
         (sub_minutes (last_minute s) (window_size s)
            = Inr (last_minute s - window_size s * MINUTE) \<and>
          s' = s\<lparr>emoji_counts :=
                    fold (\<lambda>(e, n) ec. dict_set ec e
                            (evict (last_minute s - window_size s * MINUTE)
                               (dict_get ec e [] @ [(last_minute s, n)])))
                      (current_minute_counts s) (emoji_counts s),
                  total_counts :=
                    (if 0 < current_minute_total s
                     then evict (last_minute s - window_size s * MINUTE)
                            (total_counts s @ [(last_minute s, current_minute_total s)])
                     else total_counts s)\<rparr>)"
proof (cases "sub_minutes (last_minute s) (window_size s)")
  case (Inl err)
  with assms show ?thesis
    by (auto simp: save_minute_data_def save_emoji_counts_raises Let_def split: if_splits)
next
  case (Inr c)
  then have c: "c = last_minute s - window_size s * MINUTE"
    by (rule sub_minutes_Inr)
  with Inr assms show ?thesis
    by (auto simp: save_minute_data_def save_emoji_counts_fold Let_def split: if_splits)
qed

lemma save_minute_data_frame:
  assumes "save_minute_data s = Inr s'"
  shows "last_minute s' = last_minute s \<and> window_size s' = window_size s \<and>
         current_minute_counts s' = current_minute_counts s \<and>
         current_minute_total s' = current_minute_total s"
  using save_minute_data_Inr [OF assms] by auto

lemma save_minute_data_store_ok:
  assumes "save_minute_data s = Inr s'" and "store_ok s"
  shows "store_ok s'"
proof -
  let ?lm = "last_minute s" and ?c = "last_minute s - window_size s * MINUTE"
  have em: "list_all (\<lambda>(e, xs). series_ok ?lm xs)
      (fold (\<lambda>(e, n) ec. dict_set ec e (evict ?c (dict_get ec e [] @ [(?lm, n)])))
         (current_minute_counts s) (emoji_counts s))"
    using assms(2) by (intro fold_close_all series_ok_Nil series_ok_close) (simp add: store_ok_def)
  have tot: "series_ok ?lm (evict ?c (total_counts s @ [(?lm, current_minute_total s)]))"
    using assms(2) by (intro series_ok_close) (simp add: store_ok_def)
  from save_minute_data_Inr [OF assms(1)] show ?thesis
  proof
    assume "current_minute_counts s = [] \<and> \<not> 0 < current_minute_total s \<and> s' = s"
    with assms(2) show ?thesis by simp
  next
    assume "sub_minutes ?lm (window_size s) = Inr ?c \<and>
      s' = s\<lparr>emoji_counts :=
                fold (\<lambda>(e, n) ec. dict_set ec e (evict ?c (dict_get ec e [] @ [(?lm, n)])))
                  (current_minute_counts s) (emoji_counts s),
              total_counts :=
                (if 0 < current_minute_total s
                 then evict ?c (total_counts s @ [(?lm, current_minute_total s)])
                 else total_counts s)\<rparr>"
    with em tot assms(2) show ?thesis by (simp add: store_ok_def)
  qed
qed

lemma save_minute_data_within_window:
  assumes "save_minute_data s = Inr s'" and "store_ok s" and "store_within_window s"
  shows "store_within_window s'"
proof -
  let ?lm = "last_minute s" and ?w = "window_size s"
  let ?c = "?lm - ?w * MINUTE"
  let ?P = "\<lambda>xs. series_ok ?lm xs \<and> within_window ?w xs"
  have "list_all (\<lambda>(e, xs). ?P xs) (emoji_counts s)"
    using assms(2,3) by (auto simp: store_ok_def store_within_window_def list_all_iff)
  then have "list_all (\<lambda>(e, xs). ?P xs)
      (fold (\<lambda>(e, n) ec. dict_set ec e (evict ?c (dict_get ec e [] @ [(?lm, n)])))
         (current_minute_counts s) (emoji_counts s))"
    by (rule fold_close_all)
      (simp_all add: series_ok_Nil within_window_Nil series_ok_close within_window_close)
  then have em: "list_all (\<lambda>(e, xs). within_window ?w xs)
      (fold (\<lambda>(e, n) ec. dict_set ec e (evict ?c (dict_get ec e [] @ [(?lm, n)])))
         (current_minute_counts s) (emoji_counts s))"
    by (auto simp: list_all_iff)
  have tot: "within_window ?w (evict ?c (total_counts s @ [(?lm, current_minute_total s)]))"
    using assms(2) by (intro within_window_close) (simp add: store_ok_def)
  from save_minute_data_Inr [OF assms(1)] show ?thesis
  proof
    assume "current_minute_counts s = [] \<and> \<not> 0 < current_minute_total s \<and> s' = s"
    with assms(3) show ?thesis by simp
  next
    assume "sub_minutes ?lm ?w = Inr ?c \<and>
      s' = s\<lparr>emoji_counts :=
                fold (\<lambda>(e, n) ec. dict_set ec e (evict ?c (dict_get ec e [] @ [(?lm, n)])))
                  (current_minute_counts s) (emoji_counts s),
              total_counts :=
                (if 0 < current_minute_total s
                 then evict ?c (total_counts s @ [(?lm, current_minute_total s)])
                 else total_counts s)\<rparr>"
    with em tot assms(3) show ?thesis by (simp add: store_within_window_def)
  qed
qed

subsection \<open>Invariants of every sequence of calls\<close>

lemma store_ok_advance:
  assumes "store_ok s" and "last_minute s \<le> cm"
  shows "store_ok (s\<lparr>current_minute_counts := [], current_minute_total := 0, last_minute := cm\<rparr>)"
  using assms by (auto simp: store_ok_def list_all_iff intro: series_ok_mono)

lemma store_ok_bump:
  assumes "store_ok s"
  shows "store_ok (s\<lparr>current_minute_counts := dict_set (current_minute_counts s) e v,
                      current_minute_total := n\<rparr>)"
  using assms by (simp add: store_ok_def distinct_dict_set)

lemma add_emoji_Inr:
  assumes "add_emoji f now s e str = Inr s'"
  obtains (late) "\<not> last_minute s < minute_of (parse_timestamp f now str)"
      "s' = s\<lparr>current_minute_counts :=
                 dict_set (current_minute_counts s) e (dict_get (current_minute_counts s) e 0 + 1),
               current_minute_total := current_minute_total s + 1\<rparr>"
  | (rotate) s1 where "last_minute s < minute_of (parse_timestamp f now str)"
      "save_minute_data s = Inr s1"
      "s' = s1\<lparr>current_minute_counts := [(e, 1)], current_minute_total := 1,
                last_minute := minute_of (parse_timestamp f now str)\<rparr>"
  using assms
  by (auto simp: add_emoji_def Let_def reset_current_minute_def dict_get_def
      split: if_splits sum.splits)

lemma add_emoji_store_ok:
  assumes "add_emoji f now s e str = Inr s'" and "store_ok s"
  shows "store_ok s'"
  using assms(1)
proof (cases rule: add_emoji_Inr)
  case late
  with assms(2) show ?thesis by (simp add: store_ok_bump)
next
  case (rotate s1)
  from rotate(2) assms(2) have "store_ok s1" by (rule save_minute_data_store_ok)
  moreover from rotate(1,2) have "last_minute s1 \<le> minute_of (parse_timestamp f now str)"
    by (simp add: save_minute_data_frame)
  ultimately have "store_ok (s1\<lparr>current_minute_counts := [], current_minute_total := 0,
      last_minute := minute_of (parse_timestamp f now str)\<rparr>)"
    by (rule store_ok_advance)
  with rotate(3) show ?thesis by (simp add: store_ok_def)
qed

lemma add_emoji_within_window:
  assumes "add_emoji f now s e str = Inr s'" and "store_ok s" and "store_within_window s"
  shows "store_within_window s'"
  using assms(1)
proof (cases rule: add_emoji_Inr)
  case late
  with assms(3) show ?thesis by (simp add: store_within_window_def)
next
  case (rotate s1)
  from rotate(2) assms(2,3) have "store_within_window s1"
    by (rule save_minute_data_within_window)
  with rotate(3) show ?thesis by (simp add: store_within_window_def)
qed

lemma perform_invariant:
  assumes "perform f s c = Inr (r, s')" and "store_ok s \<and> store_within_window s"
  shows "store_ok s' \<and> store_within_window s'"
proof (cases c)
  case (AddEmoji e str now)
  with assms show ?thesis
    by (auto split: sum.splits intro: add_emoji_store_ok add_emoji_within_window)
next
  case GetEmojiData
  with assms show ?thesis
    by (auto simp: get_emoji_data_def split: sum.splits
        intro: save_minute_data_store_ok save_minute_data_within_window)
next
  case GetTotalData
  with assms show ?thesis
    by (auto simp: get_total_data_def split: sum.splits
        intro: save_minute_data_store_ok save_minute_data_within_window)
next
  case GetCurrentStats
  with assms show ?thesis by (auto simp: get_current_stats_def)
qed

lemma run_invariant:
  "run f s cs = Inr (rs, s') \<Longrightarrow> store_ok s \<and> store_within_window s \<Longrightarrow>
   store_ok s' \<and> store_within_window s'"
proof (induction cs arbitrary: s rs)
  case Nil
  then show ?case by simp
next
  case (Cons c cs)
  from Cons.prems(1) obtain r s1 rs' where
    c: "perform f s c = Inr (r, s1)" and cs: "run f s1 cs = Inr (rs', s')"
    by (auto split: sum.splits)
  from c Cons.prems(2) have "store_ok s1 \<and> store_within_window s1"
    by (rule perform_invariant)
  with cs show ?case by (rule Cons.IH)
qed

lemma init_invariant: "store_ok (init w now) \<and> store_within_window (init w now)"
  by (simp add: init_def store_ok_def store_within_window_def series_ok_def within_window_def)

subsection \<open>What one call adds to the counts\<close>




subsection \<open>When the window fits the range of datetime\<close>

lemma window_fits_sub_minutes:
  "window_fits s \<Longrightarrow>
   sub_minutes (last_minute s) (window_size s) = Inr (last_minute s - window_size s * MINUTE)"
  by (simp add: window_fits_def sub_minutes_def MINUTE_def)

lemma window_fits_save_minute_data:
  assumes "window_fits s"
  shows "\<exists>s1. save_minute_data s = Inr s1 \<and> last_minute s1 = last_minute s"
  using window_fits_sub_minutes [OF assms]
  by (simp add: save_minute_data_def save_emoji_counts_fold Let_def)

lemma window_fits_init:
  "0 \<le> w \<Longrightarrow> w * MINUTE \<le> minute_of now \<Longrightarrow> minute_of now \<le> DT_MAX \<Longrightarrow>
   window_fits (init w now)"
  by (simp add: window_fits_def init_def)

lemma minute_of_le: "minute_of t \<le> t"
  by (simp add: minute_of_def MINUTE_def)

lemma window_fits_add_emoji:
  assumes "add_emoji f now s e str = Inr s'" and "window_fits s"
    and "parse_timestamp f now str \<le> DT_MAX"
  shows "window_fits s'"
  using assms(1)
proof (cases rule: add_emoji_Inr)
  case late
  with assms(2) show ?thesis by (simp add: window_fits_def)
next
  case (rotate s1)
  from rotate(2) have "window_size s1 = window_size s"
    by (simp add: save_minute_data_frame)
  moreover have "minute_of (parse_timestamp f now str) \<le> DT_MAX"
    using minute_of_le [of "parse_timestamp f now str"] assms(3) by simp
  ultimately show ?thesis
    using rotate(1,3) assms(2) by (simp add: window_fits_def)
qed

section \<open>The stated properties\<close>

subsection \<open>C1: repeating a query\<close>

text \<open>
  C1 states that a query called twice with no \<open>add_emoji\<close> in between returns the same
  result both times, the second saving of the open minute being a no-op. The queries
  call \<open>_save_minute_data\<close> without \<open>_reset_current_minute\<close>, so each of them
  appends the open bucket again: an object created at 09:59:30 that has recorded one
  \<open>''A''\<close> at 10:00 returns one data point from the first \<open>get_total_data\<close> and two
  from the second.
\<close>

theorem get_total_data_twice_differs:
  "run scenario_clock (init 3 63839699970000000)
     [AddEmoji ''A'' ''2024-01-01T10:00:00Z'' 63839700001000000, GetTotalData, GetTotalData]
   = Inr ([Done,
           TotalData [(63839700000000000, 1)],
           TotalData [(63839700000000000, 1), (63839700000000000, 1)]],
          \<lparr>window_size = 3,
           emoji_counts = [(''A'', [(63839700000000000, 1), (63839700000000000, 1)])],
           total_counts = [(63839700000000000, 1), (63839700000000000, 1)],
           current_minute_counts = [(''A'', 1)],
           current_minute_total = 1,
           last_minute = 63839700000000000\<rparr>)"
  by code_simp

subsection \<open>C2: minute keys strictly ascending\<close>

text \<open>
  C2 states that every series returned by \<open>get_emoji_data\<close> and \<open>get_total_data\<close>
  has strictly ascending minute keys. A query saves the open minute and leaves it open,
  so the same minute is saved again, by the next query or by the rotation that closes it:
  after an event at 10:00, a query, a second event at 10:00 and an event at 10:01, the
  series of \<open>''A''\<close> holds the key 10:00 twice.
\<close>

theorem get_emoji_data_duplicate_minute:
  "map_sum id fst (run scenario_clock (init 3 63839699970000000)
     [AddEmoji ''A'' ''2024-01-01T10:00:00Z'' 63839700001000000,
      GetEmojiData,
      AddEmoji ''A'' ''2024-01-01T10:00:00Z'' 63839700002000000,
      AddEmoji ''A'' ''2024-01-01T10:01:00Z'' 63839700061000000,
      GetEmojiData])
   = Inr [Done,
          EmojiData [(''A'', [(63839700000000000, 1)])],
          Done,
          Done,
          EmojiData [(''A'', [(63839700000000000, 1), (63839700000000000, 2),
                              (63839700060000000, 1)])]]
   \<and> \<not> strictly_ascending [(63839700000000000, 1), (63839700000000000, 2),
                              (63839700060000000, 1)]"
  by code_simp

subsection \<open>C3: conservation of the counts\<close>




subsection \<open>C4: the summary of scenario C\<close>

text \<open>
  C4 states that after three events of one emoji type and one of another within the open
  minute of a new object, \<open>get_current_stats\<close> returns a total of 4 and the two types
  with 3 and 1. The method adds the open bucket to the total, but builds the breakdown
  from the keys of \<open>emoji_counts\<close> only, which holds no type before the first minute is
  saved: the total is 4 and the breakdown is empty. The two emoji are given by their
  UTF-8 bytes.
\<close>

theorem scenario_C_summary:
  "map_sum id fst (run scenario_clock (init 3 63839707205000000)
     [AddEmoji [CHR 0xF0, CHR 0x9F, CHR 0x94, CHR 0xA5] ''2024-01-01T12:00:30Z'' 63839707231000000,
      AddEmoji [CHR 0xF0, CHR 0x9F, CHR 0x94, CHR 0xA5] ''2024-01-01T12:00:30Z'' 63839707232000000,
      AddEmoji [CHR 0xF0, CHR 0x9F, CHR 0x94, CHR 0xA5] ''2024-01-01T12:00:30Z'' 63839707233000000,
      AddEmoji [CHR 0xF0, CHR 0x9F, CHR 0x92, CHR 0xA7] ''2024-01-01T12:00:30Z'' 63839707234000000,
      GetCurrentStats])
   = Inr [Done, Done, Done, Done,
          CurrentStats \<lparr>total_emojis = 4, emoji_breakdown = [], window_minutes = 3\<rparr>]"
  by code_simp

subsection \<open>C5: the window bound\<close>

text \<open>
  C5 states that every retained entry of every series is at most \<open>window_size\<close> minutes
  older than the latest minute key, also for emoji types without events in the minute
  being closed. The loop of \<open>_save_minute_data\<close> that keeps only the data within the
  window runs over the emoji types of the open bucket, so the series of a type that has
  stopped is never evicted: after \<open>''A''\<close> at 10:00 and \<open>''B''\<close> at 10:10 and 10:20,
  the latest closed minute is 10:10 and the entry of \<open>''A''\<close> for 10:00 is still
  there, 10 minutes old under a window of 3. The total series has lost its entry of
  10:00, so \<open>get_current_stats\<close> returns a total of 2 next to a breakdown that sums
  to 3.
\<close>

theorem window_bound_stale_series:
  "run scenario_clock (init 3 63839699970000000)
     [AddEmoji ''A'' ''2024-01-01T10:00:00Z'' 63839700001000000,
      AddEmoji ''B'' ''2024-01-01T10:10:00Z'' 63839700601000000,
      AddEmoji ''B'' ''2024-01-01T10:20:00Z'' 63839701201000000,
      GetCurrentStats]
   = Inr ([Done, Done, Done,
           CurrentStats \<lparr>total_emojis = 2,
                         emoji_breakdown = [(''A'', 1), (''B'', 2)],
                         window_minutes = 3\<rparr>],
          \<lparr>window_size = 3,
           emoji_counts = [(''A'', [(63839700000000000, 1)]),
                           (''B'', [(63839700600000000, 1)])],
           total_counts = [(63839700600000000, 1)],
           current_minute_counts = [(''B'', 1)],
           current_minute_total = 1,
           last_minute = 63839701200000000\<rparr>)
   \<and> \<not> store_within_latest
         \<lparr>window_size = 3,
          emoji_counts = [(''A'', [(63839700000000000, 1)]),
                          (''B'', [(63839700600000000, 1)])],
          total_counts = [(63839700600000000, 1)],
          current_minute_counts = [(''B'', 1)],
          current_minute_total = 1,
          last_minute = 63839701200000000\<rparr>"
  by code_simp

text \<open>
  What the loop does establish is the bound of each series against the latest entry of
  that same series, which says nothing about a series that receives no more entries.
\<close>

lemma window_bound_per_series:
  assumes "run fromisoformat (init w now) cs = Inr (rs, s)"
  shows "store_within_window s"
  using run_invariant [OF assms init_invariant] by simp

subsection \<open>C6: scenario A\<close>

text \<open>
  C6 states that with a window of 3 minutes and one event in each of the minutes 10:00,
  10:01, 10:02 and 10:03, \<open>get_total_data\<close> returns the entries of 10:01, 10:02 and
  10:03 only. The result is another one.
\<close>

theorem scenario_A_counterexample:
  "map_sum id fst (run scenario_clock (init 3 63839699970000000)
     [AddEmoji ''A'' ''2024-01-01T10:00:00Z'' 63839700001000000,
      AddEmoji ''A'' ''2024-01-01T10:01:00Z'' 63839700061000000,
      AddEmoji ''A'' ''2024-01-01T10:02:00Z'' 63839700121000000,
      AddEmoji ''A'' ''2024-01-01T10:03:00Z'' 63839700181000000,
      GetTotalData])
   \<noteq> Inr [Done, Done, Done, Done,
          TotalData [(63839700060000000, 1), (63839700120000000, 1),
                     (63839700180000000, 1)]]"
  by code_simp

text \<open>
  C6 as amended: \<open>get_total_data\<close> returns the four entries of 10:00, 10:01, 10:02 and
  10:03. The cutoff is 10:03 minus 3 minutes, that is 10:00, and the loop evicts the
  entries strictly older than the cutoff.
\<close>

theorem scenario_A_total_series:
  "map_sum id fst (run scenario_clock (init 3 63839699970000000)
     [AddEmoji ''A'' ''2024-01-01T10:00:00Z'' 63839700001000000,
      AddEmoji ''A'' ''2024-01-01T10:01:00Z'' 63839700061000000,
      AddEmoji ''A'' ''2024-01-01T10:02:00Z'' 63839700121000000,
      AddEmoji ''A'' ''2024-01-01T10:03:00Z'' 63839700181000000,
      GetTotalData])
   = Inr [Done, Done, Done, Done,
          TotalData [(63839700000000000, 1), (63839700060000000, 1),
                     (63839700120000000, 1), (63839700180000000, 1)]]"
  by code_simp

subsection \<open>C7: late events\<close>

text \<open>
  C7: an \<open>add_emoji\<close> call whose timestamp has a minute key not later than the open
  minute does not rotate: both stores and the open-minute marker are as before, the
  count of the emoji type in the open bucket and the total of the bucket grow by one,
  and the counts of the other types are unchanged.
\<close>

theorem late_event_joins_open_bucket:
  assumes "minute_of (parse_timestamp fromisoformat now timestamp_str) \<le> last_minute s"
  shows "\<exists>s'. add_emoji fromisoformat now s emoji_type timestamp_str = Inr s' \<and>
           emoji_counts s' = emoji_counts s \<and>
           total_counts s' = total_counts s \<and>
           last_minute s' = last_minute s \<and>
           open_count s' e = open_count s e + (if e = emoji_type then 1 else 0) \<and>
           current_minute_total s' = current_minute_total s + 1"
  using assms by (simp add: add_emoji_def Let_def open_count_def dict_get_dict_set)

text \<open>C7 on an event of 10:00 that arrives when the open minute is 10:05.\<close>

theorem late_event_joins_open_bucket_witness:
  "minute_of (parse_timestamp scenario_clock 63839700302000000 ''2024-01-01T10:00:00Z'')
     \<le> last_minute (open_at 63839700300000000)
   \<and> (\<exists>s'. add_emoji scenario_clock 63839700302000000 (open_at 63839700300000000)
              ''B'' ''2024-01-01T10:00:00Z'' = Inr s' \<and>
           emoji_counts s' = emoji_counts (open_at 63839700300000000) \<and>
           total_counts s' = total_counts (open_at 63839700300000000) \<and>
           last_minute s' = last_minute (open_at 63839700300000000) \<and>
           open_count s' ''B'' =
             open_count (open_at 63839700300000000) ''B'' + (if ''B'' = ''B'' then 1 else 0) \<and>
           current_minute_total s' = current_minute_total (open_at 63839700300000000) + 1)"
proof -
  have h: "minute_of (parse_timestamp scenario_clock 63839700302000000 ''2024-01-01T10:00:00Z'')
     \<le> last_minute (open_at 63839700300000000)"
    by code_simp
  show ?thesis by (rule conjI [OF h late_event_joins_open_bucket [OF h]])
qed

subsection \<open>C8: unparseable timestamps\<close>

text \<open>
  C8 states that \<open>add_emoji\<close> never raises and that an unparseable timestamp adds one
  to the counts of the bucket of the substituted current minute. When the open minute is
  later than the clock, as after an event dated 10:05 received at 10:00, the substituted
  time is a late one and the event is counted in the bucket of 10:05.
\<close>

theorem fallback_bucket_counterexample:
  "scenario_clock (replace_Z ''not a timestamp'') = None
   \<and> add_emoji scenario_clock 63839700020000000 (open_at 63839700300000000)
        ''A'' ''not a timestamp''
     = Inr \<lparr>window_size = 3, emoji_counts = [], total_counts = [],
            current_minute_counts = [(''A'', 2)], current_minute_total = 2,
            last_minute = 63839700300000000\<rparr>
   \<and> last_minute \<lparr>window_size = 3, emoji_counts = [], total_counts = [],
            current_minute_counts = [(''A'', 2)], current_minute_total = 2,
            last_minute = 63839700300000000\<rparr> \<noteq> minute_of 63839700020000000"
  by code_simp

text \<open>
  The one exception that \<open>add_emoji\<close> lets through is the OverflowError of the
  cutoff: with a window of 2000000000 minutes, longer than the range of \<open>datetime\<close>,
  the first rotation of a non-empty bucket raises it.
\<close>

lemma add_emoji_overflow_example:
  "add_emoji scenario_clock 63839700061000000
     ((open_at 63839700000000000)\<lparr>window_size := 2000000000\<rparr>)
     ''A'' ''2024-01-01T10:01:00Z''
   = Inl OverflowError"
  by code_simp

text \<open>
  C8 as amended: on an object whose window fits the range of \<open>datetime\<close>,
  \<open>add_emoji\<close> returns for every emoji type and every timestamp string; when the string
  does not parse, the clock reading takes its place, the open minute becomes the later
  of the open minute and the minute of the clock, and the count of the emoji type and
  the total of the bucket that is open then are one more than they were in that bucket.
\<close>

theorem add_emoji_never_raises:
  assumes "window_fits s"
  shows "\<exists>s'. add_emoji fromisoformat now s emoji_type timestamp_str = Inr s' \<and>
           (fromisoformat (replace_Z timestamp_str) = None \<longrightarrow>
              last_minute s' = max (last_minute s) (minute_of now) \<and>
              open_count s' emoji_type =
                (if last_minute s < minute_of now then 0 else open_count s emoji_type) + 1 \<and>
              current_minute_total s' =
                (if last_minute s < minute_of now then 0 else current_minute_total s) + 1)"
proof -
  from window_fits_save_minute_data [OF assms] obtain s1
    where "save_minute_data s = Inr s1" and "last_minute s1 = last_minute s" by blast
  then show ?thesis
    by (cases "fromisoformat (replace_Z timestamp_str)")
      (auto simp: add_emoji_def Let_def parse_timestamp_def reset_current_minute_def
        open_count_def dict_get_def map_of_dict_set)
qed

text \<open>The amended C8 on an unparseable string received at 10:01:20 with 10:00 open.\<close>

theorem add_emoji_never_raises_witness:
  "window_fits (open_at 63839700000000000)
   \<and> scenario_clock (replace_Z ''not a timestamp'') = None
   \<and> (\<exists>s'. add_emoji scenario_clock 63839700080000000 (open_at 63839700000000000)
              ''A'' ''not a timestamp'' = Inr s' \<and>
            last_minute s' = max (last_minute (open_at 63839700000000000))
                               (minute_of 63839700080000000) \<and>
            open_count s' ''A'' =
              (if last_minute (open_at 63839700000000000) < minute_of 63839700080000000
               then 0 else open_count (open_at 63839700000000000) ''A'') + 1 \<and>
            current_minute_total s' =
              (if last_minute (open_at 63839700000000000) < minute_of 63839700080000000
               then 0 else current_minute_total (open_at 63839700000000000)) + 1)"
proof -
  have h: "window_fits (open_at 63839700000000000)" by code_simp
  have p: "scenario_clock (replace_Z ''not a timestamp'') = None" by code_simp
  from add_emoji_never_raises [OF h, of scenario_clock 63839700080000000 "''A''"
      "''not a timestamp''"] h p
  show ?thesis by blast
qed

subsection \<open>C9: the summary reads only\<close>

text \<open>
  C9: \<open>get_current_stats\<close> leaves the object as it was, while \<open>get_total_data\<close> and
  \<open>get_emoji_data\<close> change it: with a window that is not negative, the first appends
  the total of a non-empty open bucket to the total series, the second appends the count
  of every emoji type of the open bucket to the series of that type.
\<close>

theorem get_current_stats_leaves_state:
  "snd (get_current_stats s) = s \<and>
   (get_total_data s = Inr (r, s') \<and> 0 \<le> window_size s \<and> 0 < current_minute_total s \<longrightarrow>
      total_counts s' \<noteq> total_counts s \<and>
      last (total_counts s') = (last_minute s, current_minute_total s)) \<and>
   (get_emoji_data s = Inr (r', s'') \<and> 0 \<le> window_size s \<and>
    distinct (map fst (current_minute_counts s)) \<and> (e, n) \<in> set (current_minute_counts s) \<longrightarrow>
      emoji_counts s'' \<noteq> emoji_counts s \<and>
      last (dict_get (emoji_counts s'') e []) = (last_minute s, n))"
proof (intro conjI impI)
  show "snd (get_current_stats s) = s"
    by (simp add: get_current_stats_def)
next
  let ?c = "last_minute s - window_size s * MINUTE"
  assume a: "get_total_data s = Inr (r, s') \<and> 0 \<le> window_size s \<and> 0 < current_minute_total s"
  then have keep: "\<not> fst (last_minute s, current_minute_total s) < ?c"
    using MINUTE_nonneg [of "window_size s"] by simp
  from a have "save_minute_data s = Inr s'"
    by (auto simp: get_total_data_def split: sum.splits)
  from save_minute_data_Inr [OF this] a
  have eq: "total_counts s' = evict ?c (total_counts s @ [(last_minute s, current_minute_total s)])"
    by auto
  show "total_counts s' \<noteq> total_counts s"
    unfolding eq using keep by (rule evict_append_neq)
  show "last (total_counts s') = (last_minute s, current_minute_total s)"
    unfolding eq using evict_append_last [OF keep] by simp
next
  let ?c = "last_minute s - window_size s * MINUTE"
  let ?old = "dict_get (emoji_counts s) e []"
  assume a: "get_emoji_data s = Inr (r', s'') \<and> 0 \<le> window_size s \<and>
    distinct (map fst (current_minute_counts s)) \<and> (e, n) \<in> set (current_minute_counts s)"
  then have keep: "\<not> fst (last_minute s, n) < ?c"
    using MINUTE_nonneg [of "window_size s"] by simp
  from a have n: "map_of (current_minute_counts s) e = Some n" by simp
  from a have "save_minute_data s = Inr s''"
    by (auto simp: get_emoji_data_def split: sum.splits)
  from save_minute_data_Inr [OF this] a
  have ec: "emoji_counts s'' =
      fold (\<lambda>(e, n) ec. dict_set ec e (evict ?c (dict_get ec e [] @ [(last_minute s, n)])))
        (current_minute_counts s) (emoji_counts s)"
    by auto
  from a have "distinct (map fst (current_minute_counts s))" by simp
  then have "dict_get (emoji_counts s'') e [] =
      (case map_of (current_minute_counts s) e of
         None \<Rightarrow> ?old
       | Some n \<Rightarrow> evict ?c (?old @ [(last_minute s, n)]))"
    unfolding ec by (rule fold_close_get)
  then have eq: "dict_get (emoji_counts s'') e [] = evict ?c (?old @ [(last_minute s, n)])"
    by (simp only: n option.case)
  have "dict_get (emoji_counts s'') e [] \<noteq> ?old"
    unfolding eq using keep by (rule evict_append_neq)
  then show "emoji_counts s'' \<noteq> emoji_counts s" by auto
  show "last (dict_get (emoji_counts s'') e []) = (last_minute s, n)"
    unfolding eq using evict_append_last [OF keep] by simp
qed

text \<open>C9 on the object that has recorded one event at 10:00.\<close>

theorem get_current_stats_leaves_state_witness:
  "(get_total_data (open_at 63839700000000000)
      = Inr ([(63839700000000000, 1)], saved_at 63839700000000000) \<and>
    0 \<le> window_size (open_at 63839700000000000) \<and>
    0 < current_minute_total (open_at 63839700000000000))
   \<and> (get_emoji_data (open_at 63839700000000000)
      = Inr ([(''A'', [(63839700000000000, 1)])], saved_at 63839700000000000) \<and>
    0 \<le> window_size (open_at 63839700000000000) \<and>
    distinct (map fst (current_minute_counts (open_at 63839700000000000))) \<and>
    (''A'', 1) \<in> set (current_minute_counts (open_at 63839700000000000)))
   \<and> snd (get_current_stats (open_at 63839700000000000)) = open_at 63839700000000000
   \<and> total_counts (saved_at 63839700000000000) \<noteq> total_counts (open_at 63839700000000000)
   \<and> last (total_counts (saved_at 63839700000000000))
       = (last_minute (open_at 63839700000000000),
          current_minute_total (open_at 63839700000000000))
   \<and> emoji_counts (saved_at 63839700000000000) \<noteq> emoji_counts (open_at 63839700000000000)
   \<and> last (dict_get (emoji_counts (saved_at 63839700000000000)) ''A'' [])
       = (last_minute (open_at 63839700000000000), 1)"
proof -
  have t: "get_total_data (open_at 63839700000000000)
      = Inr ([(63839700000000000, 1)], saved_at 63839700000000000) \<and>
    0 \<le> window_size (open_at 63839700000000000) \<and>
    0 < current_minute_total (open_at 63839700000000000)"
    by code_simp
  have e: "get_emoji_data (open_at 63839700000000000)
      = Inr ([(''A'', [(63839700000000000, 1)])], saved_at 63839700000000000) \<and>
    0 \<le> window_size (open_at 63839700000000000) \<and>
    distinct (map fst (current_minute_counts (open_at 63839700000000000))) \<and>
    (''A'', 1) \<in> set (current_minute_counts (open_at 63839700000000000))"
    by code_simp
  from get_current_stats_leaves_state
    [of "open_at 63839700000000000" "[(63839700000000000, 1)]" "saved_at 63839700000000000"
        "[(''A'', [(63839700000000000, 1)])]" "saved_at 63839700000000000" "''A''" 1]
    t e
  show ?thesis by blast
qed

end
